theory Spec2Isabelle
  imports Complex_Main "HOL-Library.Char_ord" "HOL-Library.List_Lexorder" "HOL-Library.Log_Nat"
begin

section \<open>Civic AI Policy Bridge: feedback store, aggregation, recommendations, reports\<close>

text \<open>
  A shallow embedding of \<^verbatim>\<open>main.py\<close>: the feedback form handler of
  \<^verbatim>\<open>feedback_page\<close>, the aggregations of \<^verbatim>\<open>insights_page\<close>, and the two
  generators \<^verbatim>\<open>generate_recommendations\<close> and \<^verbatim>\<open>generate_summary_report\<close>.

  The store is the list \<^verbatim>\<open>st.session_state.feedback_data\<close>; it starts empty
  (\<^verbatim>\<open>initialize_session_state\<close>) and the only statement that changes it is the
  \<^verbatim>\<open>append\<close> of \<^verbatim>\<open>feedback_page\<close>.
\<close>

subsection \<open>Values and errors\<close>

record datetime =
  year :: nat
  month :: nat
  day :: nat
  hour :: nat
  minute :: nat
  second :: nat

text \<open>The values a cell of the data frame can hold.\<close>

datatype pyval = PStr string | PList "string list" | PTime datetime | PInt nat

text \<open>
  \<open>KeyError\<close> is what pandas raises for a column that is not there, and
  \<open>AttributeError\<close> for \<^verbatim>\<open>.dt\<close> on values that are not dates.
  \<open>ValidationError\<close> is the error the specification names; no statement of the source
  raises it, and it is here only so that this can be said.
\<close>

datatype error = KeyError string | AttributeError | ValidationError

text \<open>
  Rounding to float64: the nearest number with a significand of 53 bits, a tie going
  to the even significand. \<open>floor_log2 x\<close> is the exponent of a positive \<open>x\<close>. The range of
  the exponent is not modelled: no value computed here exceeds 100, and none is below
  \<open>2^-1022\<close> unless the store has more than \<open>2^1022\<close> records.
\<close>

definition floor_log2 :: "rat \<Rightarrow> int" where
  "floor_log2 x =
     (let d = bitlen (fst (quotient_of x)) - bitlen (snd (quotient_of x))
      in if 2 powi d \<le> x then d else d - 1)"

definition round_half_even :: "rat \<Rightarrow> int" where
  "round_half_even y =
     (let f = \<lfloor>y\<rfloor>; r = y - of_int f
      in if r < 1 / 2 then f else if 1 / 2 < r then f + 1 else if even f then f else f + 1)"

definition float64 :: "rat \<Rightarrow> rat" where
  "float64 x =
     (if x = 0 then 0
      else let q = 2 powi (floor_log2 \<bar>x\<bar> - 52)
           in sgn x * of_int (round_half_even (\<bar>x\<bar> / q)) * q)"

text \<open>
  A Python float that is either NaN or a number. The mean of a mask is kept as the
  exact quotient of its two counts; the float64 that \<^verbatim>\<open>mean()\<close> returns is the rounding
  of that quotient (the counts themselves are exact in float64 below \<open>2^53\<close> rows). The
  comparison with the literal \<^verbatim>\<open>0.3\<close> (\<open>fgt\<close>) is decided on the exact quotient, which
  agrees with the comparison of the two floats for every frame of fewer than \<open>2^52\<close>
  rows. The product \<^verbatim>\<open>mean() * 100\<close> (\<open>fmul\<close>) is the float64 product: the float64 of
  the mean times the factor, rounded; its result is the float the source computes.
\<close>

datatype pyfloat = NaN | Fin rat

fun fmul :: "pyfloat \<Rightarrow> rat \<Rightarrow> pyfloat" where
  "fmul NaN c = NaN"
| "fmul (Fin x) c = Fin (float64 (float64 x * c))"

fun fgt :: "pyfloat \<Rightarrow> rat \<Rightarrow> bool" where
  "fgt NaN c = False"
| "fgt (Fin x) c = (c < x)"

subsection \<open>The feedback record and the form handler\<close>

text \<open>The dictionary \<^verbatim>\<open>feedback_entry\<close>, one field per key, in the order of the literal.\<close>

record feedback_entry =
  fb_timestamp :: datetime
  fb_name :: string
  fb_demographic :: string
  fb_type :: string
  fb_text :: string
  fb_sentiment :: string
  fb_key_points :: "string list"
  fb_category :: string

text \<open>
  The dictionary returned by \<^verbatim>\<open>ai_analyzer.process_feedback\<close>; \<open>None\<close> is an absent
  key. The analyzer itself is outside this file and is a parameter of the handler.
\<close>

record processed_feedback =
  pf_sentiment :: "string option"
  pf_key_points :: "string list option"
  pf_category :: "string option"

type_synonym analyzer = "string \<Rightarrow> string \<Rightarrow> processed_feedback"

text \<open>What the widgets of the form hold when the script runs.\<close>

record feedback_form =
  form_name :: string
  form_demographic :: string
  form_feedback_type :: string
  form_feedback_text :: string
  form_submitted :: bool

definition DEMOGRAPHICS :: "string list" where
  "DEMOGRAPHICS = [''General Citizen'', ''Student'', ''Farmer'', ''Business Owner'',
                   ''Senior Citizen'', ''Parent'', ''Teacher'', ''Healthcare Worker'']"

definition FEEDBACK_TYPES :: "string list" where
  "FEEDBACK_TYPES = [''Support'', ''Concern'', ''Suggestion'', ''Question'']"

text \<open>\<^verbatim>\<open>d.get(key, default)\<close>.\<close>

fun dict_get :: "'a option \<Rightarrow> 'a \<Rightarrow> 'a" where
  "dict_get None d = d"
| "dict_get (Some v) d = v"

text \<open>\<^verbatim>\<open>name or 'Anonymous'\<close>: the empty string is falsy.\<close>

definition name_or_anonymous :: "string \<Rightarrow> string" where
  "name_or_anonymous n = (if n = [] then ''Anonymous'' else n)"

definition make_entry :: "analyzer \<Rightarrow> datetime \<Rightarrow> feedback_form \<Rightarrow> feedback_entry" where
  "make_entry ai now f =
     (let processed = ai (form_feedback_text f) (form_feedback_type f)
      in \<lparr> fb_timestamp = now,
           fb_name = name_or_anonymous (form_name f),
           fb_demographic = form_demographic f,
           fb_type = form_feedback_type f,
           fb_text = form_feedback_text f,
           fb_sentiment = dict_get (pf_sentiment processed) ''neutral'',
           fb_key_points = dict_get (pf_key_points processed) [],
           fb_category = dict_get (pf_category processed) ''general'' \<rparr>)"

text \<open>
  The body of the form in \<^verbatim>\<open>feedback_page\<close>: \<^verbatim>\<open>if submitted and feedback_text:\<close>
  builds the entry and appends it; otherwise nothing happens. The result is the new
  content of \<^verbatim>\<open>st.session_state.feedback_data\<close>. The analyzer stands for a call that
  returns its dictionary; an exception of the external call would end the run before the
  append.
\<close>

definition feedback_submit ::
  "analyzer \<Rightarrow> datetime \<Rightarrow> feedback_form \<Rightarrow> feedback_entry list \<Rightarrow> error + feedback_entry list" where
  "feedback_submit ai now f feedback_data =
     (if form_submitted f \<and> form_feedback_text f \<noteq> []
      then Inr (feedback_data @ [make_entry ai now f])
      else Inr feedback_data)"

text \<open>A session: the store starts empty and each run of the form handler may append.\<close>

fun run_session :: "analyzer \<Rightarrow> (datetime \<times> feedback_form) list \<Rightarrow> feedback_entry list \<Rightarrow> error + feedback_entry list" where
  "run_session ai [] feedback_data = Inr feedback_data"
| "run_session ai ((now, f) # rest) feedback_data =
     (case feedback_submit ai now f feedback_data of
        Inl e \<Rightarrow> Inl e
      | Inr feedback_data' \<Rightarrow> run_session ai rest feedback_data')"

subsection \<open>Printing numbers and dates\<close>

definition digit_char :: "nat \<Rightarrow> char" where
  "digit_char d = char_of (48 + d)"

text \<open>\<^verbatim>\<open>str(n)\<close> of a non-negative integer: its decimal digits.\<close>

function str_nat :: "nat \<Rightarrow> string" where
  "str_nat n = (if n < 10 then [digit_char n] else str_nat (n div 10) @ [digit_char (n mod 10)])"
  by pat_completeness auto
termination
  by (relation "measure id") auto

definition pad2 :: "nat \<Rightarrow> string" where
  "pad2 n = (if n < 10 then CHR ''0'' # str_nat n else str_nat n)"

text \<open>\<^verbatim>\<open>strftime('%Y-%m-%d %H:%M:%S')\<close>.\<close>

definition strftime :: "datetime \<Rightarrow> string" where
  "strftime t = str_nat (year t) @ ''-'' @ pad2 (month t) @ ''-'' @ pad2 (day t) @ '' ''
                @ pad2 (hour t) @ '':'' @ pad2 (minute t) @ '':'' @ pad2 (second t)"

fun join :: "string \<Rightarrow> string list \<Rightarrow> string" where
  "join sep [] = []"
| "join sep [x] = x"
| "join sep (x # y # ys) = x @ sep @ join sep (y # ys)"

text \<open>
  \<^verbatim>\<open>str(v)\<close>, as an f-string formats a value. The source only ever formats string
  cells and counts; the list case writes each item between single quotes and does not
  model the escapes of \<^verbatim>\<open>repr\<close>.
\<close>

fun py_str :: "pyval \<Rightarrow> string" where
  "py_str (PStr s) = s"
| "py_str (PInt n) = str_nat n"
| "py_str (PTime t) = strftime t"
| "py_str (PList l) = ''['' @ join '', '' (map (\<lambda>s. [CHR 0x27] @ s @ [CHR 0x27]) l) @ '']''"

subsection \<open>Data frames\<close>

text \<open>
  A frame built from the store: the list of its column labels and its rows. Every
  column is a function of the row's entry; \<open>Hour\<close> is the column that
  \<^verbatim>\<open>insights_page\<close> adds with \<^verbatim>\<open>df['hour'] = df['timestamp'].dt.hour\<close>.
\<close>

datatype column = Timestamp | Name | Demographic | Type | Text | Sentiment | Key_points | Category | Hour

fun column_name :: "column \<Rightarrow> string" where
  "column_name Timestamp = ''timestamp''"
| "column_name Name = ''name''"
| "column_name Demographic = ''demographic''"
| "column_name Type = ''type''"
| "column_name Text = ''text''"
| "column_name Sentiment = ''sentiment''"
| "column_name Key_points = ''key_points''"
| "column_name Category = ''category''"
| "column_name Hour = ''hour''"

fun cell :: "column \<Rightarrow> feedback_entry \<Rightarrow> pyval" where
  "cell Timestamp r = PTime (fb_timestamp r)"
| "cell Name r = PStr (fb_name r)"
| "cell Demographic r = PStr (fb_demographic r)"
| "cell Type r = PStr (fb_type r)"
| "cell Text r = PStr (fb_text r)"
| "cell Sentiment r = PStr (fb_sentiment r)"
| "cell Key_points r = PList (fb_key_points r)"
| "cell Category r = PStr (fb_category r)"
| "cell Hour r = PInt (hour (fb_timestamp r))"

record dataframe =
  df_columns :: "column list"
  df_rows :: "feedback_entry list"

text \<open>The keys of the \<^verbatim>\<open>feedback_entry\<close> literal, in its order.\<close>

definition entry_keys :: "column list" where
  "entry_keys = [Timestamp, Name, Demographic, Type, Text, Sentiment, Key_points, Category]"

text \<open>
  \<^verbatim>\<open>pd.DataFrame(feedback_data)\<close> for a list of dictionaries: the columns are the keys
  of the dictionaries, so the frame of an empty list has no column at all.
\<close>

definition pd_DataFrame :: "feedback_entry list \<Rightarrow> dataframe" where
  "pd_DataFrame feedback_data =
     \<lparr> df_columns = (if feedback_data = [] then [] else entry_keys), df_rows = feedback_data \<rparr>"

text \<open>\<^verbatim>\<open>len(df)\<close>.\<close>

definition len :: "dataframe \<Rightarrow> nat" where
  "len df = length (df_rows df)"

text \<open>\<^verbatim>\<open>df[key]\<close>: the column as a list, or \<open>KeyError\<close>.\<close>

definition getitem :: "dataframe \<Rightarrow> string \<Rightarrow> error + pyval list" where
  "getitem df key =
     (case find (\<lambda>c. column_name c = key) (df_columns df) of
        None \<Rightarrow> Inl (KeyError key)
      | Some c \<Rightarrow> Inr (map (cell c) (df_rows df)))"

text \<open>\<^verbatim>\<open>df['hour'] = ...\<close>: a new label goes last; an existing one keeps its place.\<close>

definition setitem_hour :: "dataframe \<Rightarrow> dataframe" where
  "setitem_hour df =
     df\<lparr> df_columns := (if Hour \<in> set (df_columns df) then df_columns df
                         else df_columns df @ [Hour]) \<rparr>"

text \<open>\<^verbatim>\<open>series == value\<close>.\<close>

definition eq_str :: "pyval list \<Rightarrow> string \<Rightarrow> bool list" where
  "eq_str series v = map (\<lambda>x. x = PStr v) series"

text \<open>\<^verbatim>\<open>df[mask]\<close>: the rows where the mask is true, in their order.\<close>

definition getitem_mask :: "dataframe \<Rightarrow> bool list \<Rightarrow> dataframe" where
  "getitem_mask df msk = df\<lparr> df_rows := map fst (filter snd (zip (df_rows df) msk)) \<rparr>"

text \<open>\<^verbatim>\<open>mask.sum()\<close> and \<^verbatim>\<open>mask.mean()\<close>; the mean of no values is NaN.\<close>

definition sum_bool :: "bool list \<Rightarrow> nat" where
  "sum_bool msk = length (filter id msk)"

definition mean :: "bool list \<Rightarrow> pyfloat" where
  "mean msk = (if msk = [] then NaN else Fin (of_nat (sum_bool msk) / of_nat (length msk)))"

text \<open>The distinct values of a list in the order of their first appearance.\<close>

fun uniq :: "'a list \<Rightarrow> 'a list" where
  "uniq [] = []"
| "uniq (x # xs) = x # filter (\<lambda>y. y \<noteq> x) (uniq xs)"

definition nunique :: "'a list \<Rightarrow> nat" where
  "nunique xs = length (uniq xs)"

text \<open>
  \<^verbatim>\<open>series.value_counts()\<close>: pandas counts the values in a hash table that keeps
  them in the order of their first appearance, and then sorts by count, descending; the
  sort keeps values of equal count in that order.
\<close>

definition value_counts :: "'a list \<Rightarrow> ('a \<times> nat) list" where
  "value_counts xs =
     sort_key (\<lambda>kc. - int (snd kc)) (map (\<lambda>k. (k, count_list xs k)) (uniq xs))"

text \<open>\<^verbatim>\<open>groupby(key).size()\<close>: one count per value, the values in ascending order.\<close>

definition groupby_size :: "('a::linorder) list \<Rightarrow> ('a \<times> nat) list" where
  "groupby_size xs = map (\<lambda>k. (k, count_list xs k)) (sort (uniq xs))"

text \<open>
  \<^verbatim>\<open>groupby([a, b]).size().unstack(fill_value=0)\<close>: the row labels are the values of
  the first key and the column labels the values of the second, both in ascending order
  (\<^verbatim>\<open>groupby\<close> sorts its keys); a cell is the size of its group, 0 where there is none.
\<close>

record crosstab =
  ct_index :: "string list"
  ct_columns :: "string list"
  ct_cells :: "nat list list"

definition groupby_size_unstack :: "string list \<Rightarrow> string list \<Rightarrow> crosstab" where
  "groupby_size_unstack ks1 ks2 =
     (let idx = sort (uniq ks1); cols = sort (uniq ks2)
      in \<lparr> ct_index = idx, ct_columns = cols,
           ct_cells = map (\<lambda>a. map (\<lambda>b. count_list (zip ks1 ks2) (a, b)) cols) idx \<rparr>)"

text \<open>\<^verbatim>\<open>df.to_csv(index=False)\<close> as a table: the header row and one row of cells per row.\<close>

record csv_table =
  csv_header :: "string list"
  csv_rows :: "pyval list list"

definition to_csv :: "dataframe \<Rightarrow> csv_table" where
  "to_csv df =
     \<lparr> csv_header = map column_name (df_columns df),
       csv_rows = map (\<lambda>r. map (\<lambda>c. cell c r) (df_columns df)) (df_rows df) \<rparr>"

text \<open>\<^verbatim>\<open>series.dt.hour\<close>.\<close>

fun dt_hour :: "pyval list \<Rightarrow> error + nat list" where
  "dt_hour [] = Inr []"
| "dt_hour (PTime t # vs) = (case dt_hour vs of Inl e \<Rightarrow> Inl e | Inr hs \<Rightarrow> Inr (hour t # hs))"
| "dt_hour (v # vs) = Inl AttributeError"

subsection \<open>Raising and sequencing\<close>

text \<open>A statement that raises ends the function: the rest runs only on a value.\<close>

definition bind :: "error + 'a \<Rightarrow> ('a \<Rightarrow> error + 'b) \<Rightarrow> error + 'b" where
  "bind m f = (case m of Inl e \<Rightarrow> Inl e | Inr x \<Rightarrow> f x)"

subsection \<open>Recommendations\<close>

definition rule1_text :: string where
  "rule1_text = ''Consider addressing the high level of concerns (30%+) before policy implementation.''"

definition rule2_text :: "pyval \<Rightarrow> string" where
  "rule2_text top_concerned =
     ''Focus stakeholder engagement on '' @ py_str top_concerned
     @ '' group, which shows highest concern levels.''"

definition rule3_text :: "nat \<Rightarrow> string" where
  "rule3_text suggestion_count =
     ''Review '' @ str_nat suggestion_count
     @ '' citizen suggestions for potential policy improvements.''"

text \<open>
  \<^verbatim>\<open>generate_recommendations(df)\<close>, statement by statement. \<^verbatim>\<open>demo_concerns.index[0]\<close>
  is read only under \<^verbatim>\<open>len(demo_concerns) > 0\<close>.
\<close>

definition generate_recommendations :: "dataframe \<Rightarrow> error + string list" where
  "generate_recommendations df =
     bind (getitem df ''sentiment'') (\<lambda>sentiment.
     let negative_pct = mean (eq_str sentiment ''negative'');
         recommendations1 = (if fgt negative_pct (3 / 10) then [rule1_text] else [])
     in
     bind (getitem df ''sentiment'') (\<lambda>sentiment'.
     bind (getitem (getitem_mask df (eq_str sentiment' ''negative'')) ''demographic'') (\<lambda>negative_demographic.
     let demo_concerns = value_counts negative_demographic;
         recommendations2 =
           (case demo_concerns of
              [] \<Rightarrow> recommendations1
            | (top_concerned, n) # rest \<Rightarrow> recommendations1 @ [rule2_text top_concerned])
     in
     bind (getitem df ''type'') (\<lambda>type.
     let suggestion_count = sum_bool (eq_str type ''Suggestion'')
     in Inr (if 0 < suggestion_count
             then recommendations2 @ [rule3_text suggestion_count]
             else recommendations2)))))"

subsection \<open>The narrative report\<close>

text \<open>
  Two renderings are fixed by Python and pandas and not by this program: the format
  \<^verbatim>\<open>:.1f\<close> of a float and \<^verbatim>\<open>Series.to_string()\<close> of a table of counts. They are
  parameters of the report.
\<close>

record renderers =
  format_1f :: "pyfloat \<Rightarrow> string"
  to_string :: "(pyval \<times> nat) list \<Rightarrow> string"

definition nl :: string where
  "nl = [CHR 0x0A]"

text \<open>The lines \<^verbatim>\<open>f"{i}. {item}\n"\<close> of \<^verbatim>\<open>enumerate(items, i)\<close>.\<close>

fun numbered :: "nat \<Rightarrow> pyval list \<Rightarrow> string" where
  "numbered i [] = []"
| "numbered i (x # xs) = str_nat i @ ''. '' @ py_str x @ nl @ numbered (Suc i) xs"

text \<open>The f-string, from the line after \<^verbatim>\<open>Generated:\<close> to its end.\<close>

definition report_body ::
  "renderers \<Rightarrow> nat \<Rightarrow> pyfloat \<Rightarrow> pyfloat \<Rightarrow> nat \<Rightarrow> (pyval \<times> nat) list \<Rightarrow> (pyval \<times> nat) list
   \<Rightarrow> (pyval \<times> nat) list \<Rightarrow> string" where
  "report_body R total_feedback support_rate concern_rate demographics demographic_counts
     sentiment_counts type_counts =
     nl @ nl @ ''SUMMARY STATISTICS'' @ nl @ ''=================='' @ nl
     @ ''Total Feedback Received: '' @ str_nat total_feedback @ nl
     @ ''Support Rate: '' @ format_1f R support_rate @ ''%'' @ nl
     @ ''Concern Rate: '' @ format_1f R concern_rate @ ''%'' @ nl
     @ ''Demographics Represented: '' @ str_nat demographics @ nl @ nl
     @ ''DEMOGRAPHIC BREAKDOWN'' @ nl @ ''===================='' @ nl
     @ to_string R demographic_counts @ nl @ nl
     @ ''SENTIMENT ANALYSIS'' @ nl @ ''=================='' @ nl
     @ to_string R sentiment_counts @ nl @ nl
     @ ''FEEDBACK TYPES'' @ nl @ ''=============='' @ nl
     @ to_string R type_counts @ nl @ nl
     @ ''TOP CONCERNS'' @ nl @ ''============'' @ nl"

text \<open>
  \<^verbatim>\<open>generate_summary_report(df)\<close>; \<open>now\<close> is what \<^verbatim>\<open>datetime.now()\<close> returns
  when the f-string is evaluated.
\<close>

definition generate_summary_report :: "renderers \<Rightarrow> datetime \<Rightarrow> dataframe \<Rightarrow> error + string" where
  "generate_summary_report R now df =
     (let total_feedback = len df in
      bind (getitem df ''sentiment'') (\<lambda>s1.
      let support_rate = fmul (mean (eq_str s1 ''positive'')) 100 in
      bind (getitem df ''sentiment'') (\<lambda>s2.
      let concern_rate = fmul (mean (eq_str s2 ''negative'')) 100 in
      bind (getitem df ''demographic'') (\<lambda>d1.
      bind (getitem df ''demographic'') (\<lambda>d2.
      bind (getitem df ''sentiment'') (\<lambda>s3.
      bind (getitem df ''type'') (\<lambda>t1.
      let report = nl @ ''POLICY FEEDBACK ANALYSIS REPORT'' @ nl @ ''Generated: '' @ strftime now
                   @ report_body R total_feedback support_rate concern_rate (nunique d1)
                       (value_counts d2) (value_counts s3) (value_counts t1) in
      bind (getitem df ''sentiment'') (\<lambda>s4.
      bind (getitem (getitem_mask df (eq_str s4 ''negative'')) ''text'') (\<lambda>negative_text.
      let concerns = take 5 negative_text;
          report = report @ numbered 1 concerns;
          report = report @ nl @ ''TOP SUPPORT POINTS'' @ nl @ ''================'' @ nl in
      bind (getitem df ''sentiment'') (\<lambda>s5.
      bind (getitem (getitem_mask df (eq_str s5 ''positive'')) ''text'') (\<lambda>positive_text.
      let support = take 5 positive_text
      in Inr (report @ numbered 1 support))))))))))))"

subsection \<open>The pages\<close>

text \<open>
  The statistics column of \<^verbatim>\<open>feedback_page\<close> (the block \<^verbatim>\<open>with col2:\<close>): the two
  tables of counts that are charted, or the note shown while the store is empty. The
  page reaches this block only when a document has been analysed; see \<open>feedback_page\<close>.
\<close>

datatype stats_panel = Info string | Stats "(pyval \<times> nat) list" "(pyval \<times> nat) list"

definition live_feedback_stats :: "feedback_entry list \<Rightarrow> error + stats_panel" where
  "live_feedback_stats feedback_data =
     (if feedback_data \<noteq> []
      then (let df = pd_DataFrame feedback_data in
            bind (getitem df ''type'') (\<lambda>type.
            let type_counts = value_counts type in
            bind (getitem df ''sentiment'') (\<lambda>sentiment.
            let sentiment_counts = value_counts sentiment
            in Inr (Stats type_counts sentiment_counts))))
      else Inr (Info ''No feedback received yet.''))"

text \<open>
  One run of \<^verbatim>\<open>feedback_page\<close> on the simplified text of the session, the widgets of the
  form and the store; the result is the store after the run and what the run shows.
  Without a simplified text the page warns and returns: no form, no statistics. A
  submission that appends ends the run with \<^verbatim>\<open>st.rerun()\<close>, before the statistics
  column. Otherwise the run shows the statistics column and the last five records.
\<close>

datatype feedback_view = Warn string | Rerun | View stats_panel "feedback_entry list"

definition feedback_page ::
  "analyzer \<Rightarrow> datetime \<Rightarrow> string \<Rightarrow> feedback_form \<Rightarrow> feedback_entry list
   \<Rightarrow> error + feedback_entry list \<times> feedback_view" where
  "feedback_page ai now simplified_text f feedback_data =
     (if simplified_text = []
      then Inr (feedback_data, Warn ''Please analyze a document first to collect feedback!'')
      else if form_submitted f \<and> form_feedback_text f \<noteq> []
      then bind (feedback_submit ai now f feedback_data) (\<lambda>feedback_data'.
           Inr (feedback_data', Rerun))
      else bind (live_feedback_stats feedback_data) (\<lambda>panel.
           Inr (feedback_data, View panel (drop (length feedback_data - 5) feedback_data))))"

text \<open>
  What \<^verbatim>\<open>insights_page\<close> shows and offers for download. The two download buttons are
  inputs: the export and the report are computed only when their button is pressed.
\<close>

record insights =
  ins_total_feedback :: nat
  ins_support_pct :: pyfloat
  ins_concern_pct :: pyfloat
  ins_demographics_represented :: nat
  ins_hourly_counts :: "(nat \<times> nat) list"
  ins_demo_sentiment :: crosstab
  ins_concerns :: "string list"
  ins_support :: "string list"
  ins_recommendations :: "string list"
  ins_csv :: "csv_table option"
  ins_report :: "string option"

datatype page = Warning string | Insights insights

text \<open>
  \<^verbatim>\<open>insights_page()\<close> on the store. The page returns at once on an empty store. The
  frame \<open>df\<close> is one object: the column \<^verbatim>\<open>hour\<close> written for the timeline is still
  there when the recommendations, the export and the report read the frame, so they
  read \<open>df'\<close>.
\<close>

definition insights_page ::
  "renderers \<Rightarrow> datetime \<Rightarrow> bool \<Rightarrow> bool \<Rightarrow> feedback_entry list \<Rightarrow> error + page" where
  "insights_page R now csv_button report_button feedback_data =
     (if feedback_data = [] then Inr (Warning ''No feedback data available for insights!'')
      else
      let df = pd_DataFrame feedback_data in
      bind (getitem df ''sentiment'') (\<lambda>s1.
      let support_pct = fmul (mean (eq_str s1 ''positive'')) 100 in
      bind (getitem df ''sentiment'') (\<lambda>s2.
      let concern_pct = fmul (mean (eq_str s2 ''negative'')) 100 in
      bind (getitem df ''demographic'') (\<lambda>d1.
      bind (getitem df ''timestamp'') (\<lambda>ts.
      bind (dt_hour ts) (\<lambda>hours.
      let df' = setitem_hour df;
          hourly_counts = groupby_size hours in
      bind (getitem df' ''demographic'') (\<lambda>d2.
      bind (getitem df' ''sentiment'') (\<lambda>s3.
      let demo_sentiment = groupby_size_unstack (map py_str d2) (map py_str s3) in
      bind (getitem df' ''sentiment'') (\<lambda>s4.
      bind (getitem (getitem_mask df' (eq_str s4 ''negative'')) ''text'') (\<lambda>negative_text.
      let concerns = map (\<lambda>c. take 100 (py_str c)) (take 3 negative_text) in
      bind (getitem df' ''sentiment'') (\<lambda>s5.
      bind (getitem (getitem_mask df' (eq_str s5 ''positive'')) ''text'') (\<lambda>positive_text.
      let support = map (\<lambda>c. take 100 (py_str c)) (take 3 positive_text) in
      bind (if 0 < len df' then generate_recommendations df' else Inr []) (\<lambda>recommendations.
      let csv = (if csv_button then Some (to_csv df') else None) in
      bind (if report_button then bind (generate_summary_report R now df') (\<lambda>r. Inr (Some r))
            else Inr None) (\<lambda>report.
      Inr (Insights \<lparr> ins_total_feedback = len df,
                      ins_support_pct = support_pct,
                      ins_concern_pct = concern_pct,
                      ins_demographics_represented = nunique d1,
                      ins_hourly_counts = hourly_counts,
                      ins_demo_sentiment = demo_sentiment,
                      ins_concerns = concerns,
                      ins_support = support,
                      ins_recommendations = recommendations,
                      ins_csv = csv,
                      ins_report = report \<rparr>)))))))))))))))"

text \<open>What the page shows in one of its fields, when it gets as far as showing it.\<close>

definition shown :: "(insights \<Rightarrow> 'a) \<Rightarrow> error + page \<Rightarrow> 'a option" where
  "shown field result = (case result of Inr (Insights i) \<Rightarrow> Some (field i) | _ \<Rightarrow> None)"

subsection \<open>Notions of the specification\<close>


text \<open>The demographics of the records of negative sentiment, in store order.\<close>

definition negative_demographics :: "feedback_entry list \<Rightarrow> string list" where
  "negative_demographics rows = map fb_demographic (filter (\<lambda>e. fb_sentiment e = ''negative'') rows)"

text \<open>How many records carry a sentiment label, and which share of the store that is.\<close>

definition sentiment_count :: "feedback_entry list \<Rightarrow> string \<Rightarrow> nat" where
  "sentiment_count rows label = length (filter (\<lambda>e. fb_sentiment e = label) rows)"

definition sentiment_fraction :: "feedback_entry list \<Rightarrow> string \<Rightarrow> rat" where
  "sentiment_fraction rows label = of_nat (sentiment_count rows label) / of_nat (length rows)"

text \<open>The attributes of a feedback record, as column labels.\<close>

definition record_attributes :: "string list" where
  "record_attributes = [''timestamp'', ''name'', ''demographic'', ''type'', ''text'',
                        ''sentiment'', ''key_points'', ''category'']"

subsection \<open>Example data\<close>

definition t0 :: datetime where
  "t0 = \<lparr> year = 2025, month = 3, day = 14, hour = 9, minute = 30, second = 0 \<rparr>"

definition negative_analyzer :: analyzer where
  "negative_analyzer txt ty =
     \<lparr> pf_sentiment = Some ''negative'', pf_key_points = Some [''prices''],
       pf_category = Some ''economy'' \<rparr>"

definition silent_analyzer :: analyzer where
  "silent_analyzer txt ty = \<lparr> pf_sentiment = None, pf_key_points = None, pf_category = None \<rparr>"

definition noisy_analyzer :: analyzer where
  "noisy_analyzer txt ty =
     \<lparr> pf_sentiment = Some ''mixed'', pf_key_points = None, pf_category = None \<rparr>"

definition anonymous_form :: feedback_form where
  "anonymous_form =
     \<lparr> form_name = [], form_demographic = ''Farmer'', form_feedback_type = ''Concern'',
       form_feedback_text = ''Water prices are too high'', form_submitted = True \<rparr>"

definition empty_text_form :: feedback_form where
  "empty_text_form =
     \<lparr> form_name = ''Asha'', form_demographic = ''Student'', form_feedback_type = ''Support'',
       form_feedback_text = [], form_submitted = True \<rparr>"

definition unsubmitted_form :: feedback_form where
  "unsubmitted_form =
     \<lparr> form_name = ''Asha'', form_demographic = ''Student'', form_feedback_type = ''Support'',
       form_feedback_text = ''A good step'', form_submitted = False \<rparr>"

definition example_entry :: "string \<Rightarrow> string \<Rightarrow> string \<Rightarrow> feedback_entry" where
  "example_entry demographic ty sentiment =
     \<lparr> fb_timestamp = t0, fb_name = ''Anonymous'', fb_demographic = demographic, fb_type = ty,
       fb_text = ''Some words'', fb_sentiment = sentiment, fb_key_points = [],
       fb_category = ''general'' \<rparr>"


text \<open>Stores of ten records of which three, and four, are negative.\<close>

definition three_of_ten :: "feedback_entry list" where
  "three_of_ten = replicate 3 (example_entry ''Farmer'' ''Concern'' ''negative'')
                  @ replicate 7 (example_entry ''Student'' ''Suggestion'' ''positive'')"

definition four_of_ten :: "feedback_entry list" where
  "four_of_ten = replicate 4 (example_entry ''Farmer'' ''Concern'' ''negative'')
                 @ replicate 6 (example_entry ''Student'' ''Suggestion'' ''positive'')"

text \<open>Twenty records of which eleven are positive and nine negative.\<close>

definition eleven_of_twenty :: "feedback_entry list" where
  "eleven_of_twenty = replicate 11 (example_entry ''Student'' ''Support'' ''positive'')
                      @ replicate 9 (example_entry ''Farmer'' ''Concern'' ''negative'')"

text \<open>A student and then a farmer, both positive.\<close>

definition two_positive :: "feedback_entry list" where
  "two_positive =
     [example_entry ''Student'' ''Support'' ''positive'',
      example_entry ''Farmer'' ''Support'' ''positive'']"

text \<open>One record whose sentiment is none of the three classes.\<close>

definition one_mixed :: "feedback_entry list" where
  "one_mixed = [example_entry ''Farmer'' ''Concern'' ''mixed'']"

text \<open>
  Renderers for the examples: one decimal of the exact value, and one line per count.
\<close>

definition example_renderers :: renderers where
  "example_renderers =
     \<lparr> format_1f = (\<lambda>x. case x of
                          NaN \<Rightarrow> ''nan''
                        | Fin r \<Rightarrow> (let t = nat \<lfloor>r * 10 + 1 / 2\<rfloor>
                                    in str_nat (t div 10) @ ''.'' @ str_nat (t mod 10))),
       to_string = (\<lambda>counts.
          join nl (map (\<lambda>kc. py_str (fst kc) @ ''    '' @ str_nat (snd kc)) counts)) \<rparr>"

section \<open>Properties\<close>

subsection \<open>Basic facts\<close>

lemma bind_Inl [simp]: "bind (Inl e) f = Inl e"
  by (simp add: bind_def)

lemma bind_Inr [simp]: "bind (Inr x) f = f x"
  by (simp add: bind_def)

lemma column_name_inj: "column_name a = column_name b \<Longrightarrow> a = b"
  by (cases a; cases b) simp_all

lemma find_column:
  "find (\<lambda>c. column_name c = column_name k) cols = (if k \<in> set cols then Some k else None)"
  by (induction cols) (auto dest: column_name_inj)

lemma getitem_column:
  "getitem df (column_name k) =
     (if k \<in> set (df_columns df) then Inr (map (cell k) (df_rows df))
      else Inl (KeyError (column_name k)))"
  by (simp add: getitem_def find_column)

lemma getitem_present:
  "k \<in> set (df_columns df) \<Longrightarrow> getitem df (column_name k) = Inr (map (cell k) (df_rows df))"
  by (simp add: getitem_column)

lemma getitem_absent:
  "k \<notin> set (df_columns df) \<Longrightarrow> getitem df (column_name k) = Inl (KeyError (column_name k))"
  by (simp add: getitem_column)

lemma mask_filter: "map fst (filter snd (zip xs (map P xs))) = filter P xs"
  by (induction xs) auto

lemma rows_getitem_mask:
  "df_rows (getitem_mask df (eq_str (map (cell Sentiment) (df_rows df)) v))
     = filter (\<lambda>e. fb_sentiment e = v) (df_rows df)"
proof -
  have "eq_str (map (cell Sentiment) (df_rows df)) v = map (\<lambda>e. fb_sentiment e = v) (df_rows df)"
    by (simp add: eq_str_def)
  then show ?thesis
    by (simp add: getitem_mask_def mask_filter)
qed

lemma columns_getitem_mask [simp]: "df_columns (getitem_mask df m) = df_columns df"
  by (simp add: getitem_mask_def)

lemma sum_bool_eq_str:
  "sum_bool (eq_str (map (cell Sentiment) rows) v) = sentiment_count rows v"
  by (induction rows) (auto simp: sum_bool_def eq_str_def sentiment_count_def)

lemma mean_eq_str:
  "rows \<noteq> [] \<Longrightarrow>
     mean (eq_str (map (cell Sentiment) rows) v) = Fin (sentiment_fraction rows v)"
  using sum_bool_eq_str [of rows v]
  by (simp add: mean_def sentiment_fraction_def eq_str_def)

lemma set_uniq [simp]: "set (uniq xs) = set xs"
  by (induction xs) auto

lemma distinct_uniq [simp]: "distinct (uniq xs)"
  by (induction xs) auto

lemma uniq_Nil_iff [simp]: "uniq xs = [] \<longleftrightarrow> xs = []"
  by (cases xs) auto

subsection \<open>The form handler\<close>

lemma feedback_submit_names:
  assumes "\<forall>e \<in> set feedback_data. fb_name e \<noteq> []"
  shows "\<exists>fd. feedback_submit ai now f feedback_data = Inr fd \<and> (\<forall>e \<in> set fd. fb_name e \<noteq> [])"
  using assms by (simp add: feedback_submit_def make_entry_def name_or_anonymous_def Let_def)

lemma run_session_names:
  "\<forall>e \<in> set feedback_data. fb_name e \<noteq> [] \<Longrightarrow>
     \<exists>fd. run_session ai events feedback_data = Inr fd \<and> (\<forall>e \<in> set fd. fb_name e \<noteq> [])"
proof (induction events arbitrary: feedback_data)
  case Nil
  then show ?case by simp
next
  case (Cons ev events)
  obtain now f where ev: "ev = (now, f)" by (cases ev)
  from feedback_submit_names [OF Cons.prems, of ai now f]
  obtain fd where fd: "feedback_submit ai now f feedback_data = Inr fd"
    "\<forall>e \<in> set fd. fb_name e \<noteq> []" by blast
  from Cons.IH [OF fd(2)] show ?case by (simp add: ev fd(1))
qed

text \<open>
  When the widgets deliver values of the two enumerations, as the select box and the
  radio buttons do, every record of the store carries values of the enumerations.
\<close>

lemma run_session_enumerations:
  assumes "\<forall>(now, f) \<in> set events.
             form_demographic f \<in> set DEMOGRAPHICS \<and> form_feedback_type f \<in> set FEEDBACK_TYPES"
    and "\<forall>e \<in> set feedback_data.
           fb_demographic e \<in> set DEMOGRAPHICS \<and> fb_type e \<in> set FEEDBACK_TYPES"
    and "run_session ai events feedback_data = Inr fd"
  shows "\<forall>e \<in> set fd. fb_demographic e \<in> set DEMOGRAPHICS \<and> fb_type e \<in> set FEEDBACK_TYPES"
  using assms
proof (induction events arbitrary: feedback_data)
  case Nil
  then show ?case by simp
next
  case (Cons ev events)
  obtain now f where ev: "ev = (now, f)" by (cases ev)
  let ?next = "if form_submitted f \<and> form_feedback_text f \<noteq> []
               then feedback_data @ [make_entry ai now f] else feedback_data"
  have step: "feedback_submit ai now f feedback_data = Inr ?next"
    by (simp add: feedback_submit_def)
  have inv: "\<forall>e \<in> set ?next. fb_demographic e \<in> set DEMOGRAPHICS \<and> fb_type e \<in> set FEEDBACK_TYPES"
    using Cons.prems(1,2) by (simp add: ev make_entry_def Let_def)
  have "run_session ai events ?next = Inr fd"
    using Cons.prems(3) by (simp add: ev step)
  from Cons.IH [OF _ inv this] Cons.prems(1) show ?case by simp
qed

text \<open>
  C10. Every record of the store has a non-empty name. The entry built from a form takes
  the submitted name, and \<^verbatim>\<open>'Anonymous'\<close> when the submitted name is the empty string
  (the text input holds a string; an absent name is the empty string). A session starts
  from the empty store and changes it only through the form handler, so whatever was
  submitted, the session ends normally and no record of the store has the name \<^verbatim>\<open>''\<close>.
\<close>

theorem stored_name_never_empty:
  "fb_name (make_entry ai now f) = (if form_name f = [] then ''Anonymous'' else form_name f)
   \<and> (\<exists>fd. run_session ai events [] = Inr fd \<and> (\<forall>e \<in> set fd. fb_name e \<noteq> []))"
proof
  show "fb_name (make_entry ai now f) = (if form_name f = [] then ''Anonymous'' else form_name f)"
    by (simp add: make_entry_def name_or_anonymous_def Let_def)
next
  show "\<exists>fd. run_session ai events [] = Inr fd \<and> (\<forall>e \<in> set fd. fb_name e \<noteq> [])"
    by (rule run_session_names) simp
qed

theorem stored_name_never_empty_witness:
  "run_session negative_analyzer [(t0, anonymous_form)] []
     = Inr [make_entry negative_analyzer t0 anonymous_form]
   \<and> form_name anonymous_form = []
   \<and> fb_name (make_entry negative_analyzer t0 anonymous_form) = ''Anonymous''"
  using stored_name_never_empty [of negative_analyzer t0 anonymous_form "[(t0, anonymous_form)]"]
  by (simp add: feedback_submit_def anonymous_form_def)

lemma value_counts_keys: "fst ` set (value_counts xs) = set xs"
  by (force simp: value_counts_def)

lemma pd_DataFrame_columns: "feedback_data \<noteq> [] \<Longrightarrow> df_columns (pd_DataFrame feedback_data) = entry_keys"
  by (simp add: pd_DataFrame_def)

lemma pd_DataFrame_rows [simp]: "df_rows (pd_DataFrame feedback_data) = feedback_data"
  by (simp add: pd_DataFrame_def)

lemma live_feedback_stats_eq:
  "feedback_data \<noteq> [] \<Longrightarrow>
     live_feedback_stats feedback_data
       = Inr (Stats (value_counts (map (cell Type) feedback_data))
                    (value_counts (map (cell Sentiment) feedback_data)))"
  using getitem_present [of Type "pd_DataFrame feedback_data"]
    getitem_present [of Sentiment "pd_DataFrame feedback_data"]
  by (simp add: live_feedback_stats_def pd_DataFrame_columns entry_keys_def Let_def)

text \<open>
  C2, as the code has it. The handler has no validation and raises no
  \<open>ValidationError\<close>. A form with an empty text, and a form that was not submitted, is
  ignored without any error and the store is unchanged. For a submitted form with a
  non-empty text, once the analyzer has returned, exactly one record is appended, and it
  carries the demographic and the type as the widgets delivered them: the handler checks
  neither against an enumeration (the select box and the radio buttons offer only the
  values of the two enumerations).
\<close>

theorem feedback_submit_no_validation:
  "(form_feedback_text f = [] \<longrightarrow> feedback_submit ai now f feedback_data = Inr feedback_data)
   \<and> (\<not> form_submitted f \<longrightarrow> feedback_submit ai now f feedback_data = Inr feedback_data)
   \<and> (form_submitted f \<and> form_feedback_text f \<noteq> [] \<longrightarrow>
        feedback_submit ai now f feedback_data = Inr (feedback_data @ [make_entry ai now f])
        \<and> fb_demographic (make_entry ai now f) = form_demographic f
        \<and> fb_type (make_entry ai now f) = form_feedback_type f
        \<and> fb_text (make_entry ai now f) = form_feedback_text f)"
  by (simp add: feedback_submit_def make_entry_def Let_def)

theorem feedback_submit_no_validation_witness:
  "form_feedback_text empty_text_form = []
   \<and> feedback_submit negative_analyzer t0 empty_text_form [example_entry ''Farmer'' ''Concern'' ''negative'']
       = Inr [example_entry ''Farmer'' ''Concern'' ''negative'']
   \<and> \<not> form_submitted unsubmitted_form \<and> form_feedback_text unsubmitted_form \<noteq> []
   \<and> feedback_submit negative_analyzer t0 unsubmitted_form [example_entry ''Farmer'' ''Concern'' ''negative'']
       = Inr [example_entry ''Farmer'' ''Concern'' ''negative'']
   \<and> form_submitted anonymous_form \<and> form_feedback_text anonymous_form \<noteq> []
   \<and> feedback_submit negative_analyzer t0 anonymous_form []
       = Inr [make_entry negative_analyzer t0 anonymous_form]
   \<and> fb_demographic (make_entry negative_analyzer t0 anonymous_form) = ''Farmer''"
  using feedback_submit_no_validation
          [of empty_text_form negative_analyzer t0 "[example_entry ''Farmer'' ''Concern'' ''negative'']"]
        feedback_submit_no_validation
          [of unsubmitted_form negative_analyzer t0 "[example_entry ''Farmer'' ''Concern'' ''negative'']"]
        feedback_submit_no_validation [of anonymous_form negative_analyzer t0 "[]"]
  by (simp add: empty_text_form_def anonymous_form_def unsubmitted_form_def)

text \<open>
  The claim C2 as stated fails: a submitted form with an empty text does not end in
  \<open>ValidationError\<close>; the handler returns normally and leaves the store as it was.
\<close>

theorem empty_text_raises_nothing:
  "form_submitted empty_text_form \<and> form_feedback_text empty_text_form = []
   \<and> feedback_submit negative_analyzer t0 empty_text_form [] \<noteq> Inl ValidationError
   \<and> feedback_submit negative_analyzer t0 empty_text_form [] = Inr []"
  by (simp add: feedback_submit_def empty_text_form_def)

text \<open>
  C3, as the code has it. The sentiment of a record is \<^verbatim>\<open>'neutral'\<close> when the analyzer's
  result has no sentiment key; a sentiment that is present is stored as it is, whatever
  its value. The aggregates do not map it to neutral: the classes of the sentiment counts
  of the statistics panel are exactly the sentiment values stored.
\<close>

theorem sentiment_stored_as_returned:
  "(pf_sentiment (ai (form_feedback_text f) (form_feedback_type f)) = None \<longrightarrow>
      fb_sentiment (make_entry ai now f) = ''neutral'')
   \<and> (\<forall>v. pf_sentiment (ai (form_feedback_text f) (form_feedback_type f)) = Some v \<longrightarrow>
      fb_sentiment (make_entry ai now f) = v)
   \<and> (feedback_data \<noteq> [] \<longrightarrow>
      (\<exists>type_counts sentiment_counts.
         live_feedback_stats feedback_data = Inr (Stats type_counts sentiment_counts)
         \<and> fst ` set sentiment_counts = (\<lambda>e. PStr (fb_sentiment e)) ` set feedback_data))"
proof -
  have "fst ` set (value_counts (map (cell Sentiment) feedback_data))
          = (\<lambda>e. PStr (fb_sentiment e)) ` set feedback_data"
    by (simp add: value_counts_keys)
  then show ?thesis
    by (simp add: live_feedback_stats_eq make_entry_def Let_def)
qed

theorem sentiment_stored_as_returned_witness:
  "pf_sentiment (silent_analyzer (form_feedback_text anonymous_form) (form_feedback_type anonymous_form)) = None
   \<and> fb_sentiment (make_entry silent_analyzer t0 anonymous_form) = ''neutral''
   \<and> pf_sentiment (noisy_analyzer (form_feedback_text anonymous_form) (form_feedback_type anonymous_form)) = Some ''mixed''
   \<and> fb_sentiment (make_entry noisy_analyzer t0 anonymous_form) = ''mixed''
   \<and> fst ` set (value_counts (map (cell Sentiment) [make_entry noisy_analyzer t0 anonymous_form]))
       = {PStr ''mixed''}"
  using sentiment_stored_as_returned
          [of silent_analyzer anonymous_form t0 "[make_entry noisy_analyzer t0 anonymous_form]"]
        sentiment_stored_as_returned
          [of noisy_analyzer anonymous_form t0 "[make_entry noisy_analyzer t0 anonymous_form]"]
  by (simp add: silent_analyzer_def noisy_analyzer_def live_feedback_stats_eq)

text \<open>
  The claim C3 as stated fails: the analyzer's sentiment \<^verbatim>\<open>'mixed'\<close> is stored as
  \<^verbatim>\<open>'mixed'\<close> and is counted as a class of its own, not as neutral.
\<close>

theorem unrecognised_sentiment_is_kept:
  "feedback_submit noisy_analyzer t0 anonymous_form []
     = Inr [make_entry noisy_analyzer t0 anonymous_form]
   \<and> fb_sentiment (make_entry noisy_analyzer t0 anonymous_form) = ''mixed''
   \<and> live_feedback_stats [make_entry noisy_analyzer t0 anonymous_form]
       = Inr (Stats [(PStr ''Concern'', 1)] [(PStr ''mixed'', 1)])"
  by (simp add: feedback_submit_def live_feedback_stats_eq make_entry_def noisy_analyzer_def
      anonymous_form_def value_counts_def Let_def)

subsection \<open>Counting values\<close>









lemma value_counts_Nil [simp]: "value_counts [] = []"
  by (simp add: value_counts_def)



subsection \<open>Recommendations\<close>

lemma sum_bool_type:
  "sum_bool (eq_str (map (cell Type) rows) v) = length (filter (\<lambda>e. fb_type e = v) rows)"
  by (induction rows) (auto simp: sum_bool_def eq_str_def)

lemma fgt_mean:
  "fgt (mean (eq_str (map (cell Sentiment) rows) ''negative'')) (3 / 10)
     = (rows \<noteq> [] \<and> 3 / 10 < sentiment_fraction rows ''negative'')"
proof (cases "rows = []")
  case True
  then show ?thesis by (simp add: mean_def eq_str_def)
next
  case False
  then show ?thesis by (simp add: mean_eq_str)
qed

lemma generate_recommendations_eq:
  assumes "Sentiment \<in> set (df_columns df)" "Demographic \<in> set (df_columns df)"
    "Type \<in> set (df_columns df)"
  shows "generate_recommendations df
           = Inr ((if df_rows df \<noteq> [] \<and> 3 / 10 < sentiment_fraction (df_rows df) ''negative''
                   then [rule1_text] else [])
                  @ (case value_counts (map PStr (negative_demographics (df_rows df))) of
                       [] \<Rightarrow> []
                     | (top_concerned, n) # rest \<Rightarrow> [rule2_text top_concerned])
                  @ (if 0 < length (filter (\<lambda>e. fb_type e = ''Suggestion'') (df_rows df))
                     then [rule3_text (length (filter (\<lambda>e. fb_type e = ''Suggestion'') (df_rows df)))]
                     else []))"
proof -
  have s: "getitem df ''sentiment'' = Inr (map (cell Sentiment) (df_rows df))"
    using getitem_present [OF assms(1)] by simp
  have t: "getitem df ''type'' = Inr (map (cell Type) (df_rows df))"
    using getitem_present [OF assms(3)] by simp
  have d: "getitem (getitem_mask df (eq_str (map (cell Sentiment) (df_rows df)) ''negative'')) ''demographic''
            = Inr (map PStr (negative_demographics (df_rows df)))"
    using getitem_present [of Demographic "getitem_mask df (eq_str (map (cell Sentiment) (df_rows df)) ''negative'')"] assms(2)
    by (simp add: rows_getitem_mask negative_demographics_def comp_def)
  show ?thesis
    unfolding generate_recommendations_def
    by (simp add: s t d Let_def fgt_mean sum_bool_type split: list.splits)
qed

lemma rule1_not_rule2: "rule1_text \<noteq> rule2_text v"
  by (simp add: rule1_text_def rule2_text_def)

lemma rule1_not_rule3: "rule1_text \<noteq> rule3_text n"
  by (simp add: rule1_text_def rule3_text_def)


text \<open>
  C4. On a frame that has the columns read and at least one row,
  \<^verbatim>\<open>generate_recommendations\<close> returns a list, and rule 1 (the warning to address the
  concerns before implementation) is in it if and only if the negative fraction is
  strictly greater than 3/10: a fraction of exactly 3/10 does not trigger it. The
  fraction is the exact quotient (see the note at \<open>pyfloat\<close>).
\<close>

theorem rule1_iff_negative_fraction_above_threshold:
  assumes "Sentiment \<in> set (df_columns df)" "Demographic \<in> set (df_columns df)"
    "Type \<in> set (df_columns df)" "df_rows df \<noteq> []"
  shows "\<exists>recs. generate_recommendations df = Inr recs
           \<and> (rule1_text \<in> set recs \<longleftrightarrow> 3 / 10 < sentiment_fraction (df_rows df) ''negative'')"
  using assms(4)
  by (simp add: generate_recommendations_eq [OF assms(1-3)] rule1_not_rule2 rule1_not_rule3
      split: list.splits)

theorem rule1_iff_negative_fraction_above_threshold_witness:
  "sentiment_fraction three_of_ten ''negative'' = 3 / 10
   \<and> generate_recommendations (pd_DataFrame three_of_ten)
       = Inr [rule2_text (PStr ''Farmer''), rule3_text 7]
   \<and> rule1_text \<notin> set [rule2_text (PStr ''Farmer''), rule3_text 7]
   \<and> sentiment_fraction four_of_ten ''negative'' = 2 / 5
   \<and> generate_recommendations (pd_DataFrame four_of_ten)
       = Inr [rule1_text, rule2_text (PStr ''Farmer''), rule3_text 6]"
proof -
  have a: "sentiment_fraction three_of_ten ''negative'' = 3 / 10" by code_simp
  have b: "generate_recommendations (pd_DataFrame three_of_ten)
             = Inr [rule2_text (PStr ''Farmer''), rule3_text 7]" by code_simp
  have c: "sentiment_fraction four_of_ten ''negative'' = 2 / 5" by code_simp
  have d: "generate_recommendations (pd_DataFrame four_of_ten)
             = Inr [rule1_text, rule2_text (PStr ''Farmer''), rule3_text 6]" by code_simp
  have cols: "df_columns (pd_DataFrame three_of_ten) = entry_keys"
    "df_columns (pd_DataFrame four_of_ten) = entry_keys"
    by (simp_all add: pd_DataFrame_def three_of_ten_def four_of_ten_def)
  have ne: "three_of_ten \<noteq> []" "four_of_ten \<noteq> []"
    by (simp_all add: three_of_ten_def four_of_ten_def)
  show ?thesis
    using rule1_iff_negative_fraction_above_threshold [of "pd_DataFrame three_of_ten"]
      rule1_iff_negative_fraction_above_threshold [of "pd_DataFrame four_of_ten"]
    by (simp add: a b c d cols ne entry_keys_def)
qed



subsection \<open>The narrative report\<close>

lemma dt_hour_timestamp:
  "dt_hour (map (cell Timestamp) rows) = Inr (map (\<lambda>e. hour (fb_timestamp e)) rows)"
  by (induction rows) auto

lemma setitem_hour_columns:
  "Hour \<notin> set (df_columns df) \<Longrightarrow> df_columns (setitem_hour df) = df_columns df @ [Hour]"
  by (simp add: setitem_hour_def)

lemma setitem_hour_rows [simp]: "df_rows (setitem_hour df) = df_rows df"
  by (simp add: setitem_hour_def)

lemma generate_summary_report_eq:
  assumes "Sentiment \<in> set (df_columns df)" "Demographic \<in> set (df_columns df)"
    "Type \<in> set (df_columns df)" "Text \<in> set (df_columns df)"
  shows "generate_summary_report R now df
     = Inr (nl @ ''POLICY FEEDBACK ANALYSIS REPORT'' @ nl @ ''Generated: '' @ strftime now
            @ (report_body R (len df)
                 (fmul (mean (eq_str (map (cell Sentiment) (df_rows df)) ''positive'')) 100)
                 (fmul (mean (eq_str (map (cell Sentiment) (df_rows df)) ''negative'')) 100)
                 (nunique (map (cell Demographic) (df_rows df)))
                 (value_counts (map (cell Demographic) (df_rows df)))
                 (value_counts (map (cell Sentiment) (df_rows df)))
                 (value_counts (map (cell Type) (df_rows df)))
               @ numbered 1 (take 5 (map (cell Text) (filter (\<lambda>e. fb_sentiment e = ''negative'') (df_rows df))))
               @ nl @ ''TOP SUPPORT POINTS'' @ nl @ ''================'' @ nl
               @ numbered 1 (take 5 (map (cell Text) (filter (\<lambda>e. fb_sentiment e = ''positive'') (df_rows df))))))"
proof -
  have s: "getitem df ''sentiment'' = Inr (map (cell Sentiment) (df_rows df))"
    using getitem_present [OF assms(1)] by simp
  have d: "getitem df ''demographic'' = Inr (map (cell Demographic) (df_rows df))"
    using getitem_present [OF assms(2)] by simp
  have t: "getitem df ''type'' = Inr (map (cell Type) (df_rows df))"
    using getitem_present [OF assms(3)] by simp
  have x: "getitem (getitem_mask df (eq_str (map (cell Sentiment) (df_rows df)) v)) ''text''
            = Inr (map (cell Text) (filter (\<lambda>e. fb_sentiment e = v) (df_rows df)))" for v
    using getitem_present [of Text "getitem_mask df (eq_str (map (cell Sentiment) (df_rows df)) v)"] assms(4)
    by (simp add: rows_getitem_mask)
  show ?thesis
    unfolding generate_summary_report_def
    by (simp add: s d t x Let_def)
qed

lemma generate_summary_report_KeyError:
  assumes "\<not> (Sentiment \<in> set (df_columns df) \<and> Demographic \<in> set (df_columns df)
             \<and> Type \<in> set (df_columns df) \<and> Text \<in> set (df_columns df))"
  shows "\<exists>e. \<forall>now. generate_summary_report R now df = Inl e"
proof (cases "Sentiment \<in> set (df_columns df)")
  case False
  then have "getitem df ''sentiment'' = Inl (KeyError ''sentiment'')"
    using getitem_absent [of Sentiment df] by simp
  then show ?thesis by (simp add: generate_summary_report_def Let_def)
next
  case s: True
  then have gs: "getitem df ''sentiment'' = Inr (map (cell Sentiment) (df_rows df))"
    using getitem_present [of Sentiment df] by simp
  show ?thesis
  proof (cases "Demographic \<in> set (df_columns df)")
    case False
    then have "getitem df ''demographic'' = Inl (KeyError ''demographic'')"
      using getitem_absent [of Demographic df] by simp
    then show ?thesis by (simp add: generate_summary_report_def Let_def gs)
  next
    case d: True
    then have gd: "getitem df ''demographic'' = Inr (map (cell Demographic) (df_rows df))"
      using getitem_present [of Demographic df] by simp
    show ?thesis
    proof (cases "Type \<in> set (df_columns df)")
      case False
      then have "getitem df ''type'' = Inl (KeyError ''type'')"
        using getitem_absent [of Type df] by simp
      then show ?thesis by (simp add: generate_summary_report_def Let_def gs gd)
    next
      case t: True
      then have gt: "getitem df ''type'' = Inr (map (cell Type) (df_rows df))"
        using getitem_present [of Type df] by simp
      from assms s d t have "Text \<notin> set (df_columns df)" by simp
      then have "getitem (getitem_mask df m) ''text'' = Inl (KeyError ''text'')" for m
        using getitem_absent [of Text "getitem_mask df m"] by simp
      then show ?thesis by (simp add: generate_summary_report_def Let_def gs gd gt)
    qed
  qed
qed

text \<open>
  C9. The clock enters the report of a frame at one place only. Either the generator
  raises the same error whatever the clock says, or there are two texts \<open>before\<close> and
  \<open>after\<close>, fixed by the frame (and the renderers) alone, such that at every clock
  value the report is \<open>before\<close>, the timestamp, \<open>after\<close>. Two runs on the same store
  therefore agree in every byte outside the timestamp.
\<close>

theorem report_same_but_for_timestamp:
  "(\<exists>e. \<forall>now. generate_summary_report R now df = Inl e)
   \<or> (\<exists>before after. \<forall>now. generate_summary_report R now df = Inr (before @ strftime now @ after))"
proof (cases "Sentiment \<in> set (df_columns df) \<and> Demographic \<in> set (df_columns df)
             \<and> Type \<in> set (df_columns df) \<and> Text \<in> set (df_columns df)")
  case True
  then have "\<forall>now. generate_summary_report R now df
     = Inr ((nl @ ''POLICY FEEDBACK ANALYSIS REPORT'' @ nl @ ''Generated: '') @ strftime now
            @ (report_body R (len df)
                 (fmul (mean (eq_str (map (cell Sentiment) (df_rows df)) ''positive'')) 100)
                 (fmul (mean (eq_str (map (cell Sentiment) (df_rows df)) ''negative'')) 100)
                 (nunique (map (cell Demographic) (df_rows df)))
                 (value_counts (map (cell Demographic) (df_rows df)))
                 (value_counts (map (cell Sentiment) (df_rows df)))
                 (value_counts (map (cell Type) (df_rows df)))
               @ numbered 1 (take 5 (map (cell Text) (filter (\<lambda>e. fb_sentiment e = ''negative'') (df_rows df))))
               @ nl @ ''TOP SUPPORT POINTS'' @ nl @ ''================'' @ nl
               @ numbered 1 (take 5 (map (cell Text) (filter (\<lambda>e. fb_sentiment e = ''positive'') (df_rows df))))))"
    by (simp add: generate_summary_report_eq)
  then show ?thesis by blast
next
  case False
  from generate_summary_report_KeyError [OF this] show ?thesis by blast
qed


subsection \<open>The insights page\<close>

lemma df'_columns:
  "feedback_data \<noteq> [] \<Longrightarrow>
     df_columns (setitem_hour (pd_DataFrame feedback_data)) = entry_keys @ [Hour]"
  by (simp add: setitem_hour_def pd_DataFrame_def entry_keys_def)

text \<open>The column written for the timeline holds the hours that \<^verbatim>\<open>.dt.hour\<close> returned.\<close>

lemma hour_column:
  assumes "feedback_data \<noteq> []"
  shows "getitem (setitem_hour (pd_DataFrame feedback_data)) ''hour''
           = Inr (map PInt (map (\<lambda>e. hour (fb_timestamp e)) feedback_data))"
  using getitem_present [of Hour "setitem_hour (pd_DataFrame feedback_data)"]
  by (simp add: df'_columns [OF assms])

lemma map_py_str_cell:
  "map py_str (map (cell Demographic) rows) = map fb_demographic rows"
  "map py_str (map (cell Sentiment) rows) = map fb_sentiment rows"
  by simp_all

lemma insights_page_eq:
  assumes "feedback_data \<noteq> []"
  shows "insights_page R now csv_button report_button feedback_data
    = Inr (Insights
        \<lparr> ins_total_feedback = length feedback_data,
          ins_support_pct = Fin (float64 (float64 (sentiment_fraction feedback_data ''positive'') * 100)),
          ins_concern_pct = Fin (float64 (float64 (sentiment_fraction feedback_data ''negative'') * 100)),
          ins_demographics_represented = nunique (map (cell Demographic) feedback_data),
          ins_hourly_counts = groupby_size (map (\<lambda>e. hour (fb_timestamp e)) feedback_data),
          ins_demo_sentiment =
            groupby_size_unstack (map fb_demographic feedback_data) (map fb_sentiment feedback_data),
          ins_concerns = map (\<lambda>c. take 100 (py_str c))
            (take 3 (map (cell Text) (filter (\<lambda>e. fb_sentiment e = ''negative'') feedback_data))),
          ins_support = map (\<lambda>c. take 100 (py_str c))
            (take 3 (map (cell Text) (filter (\<lambda>e. fb_sentiment e = ''positive'') feedback_data))),
          ins_recommendations = projr (generate_recommendations (setitem_hour (pd_DataFrame feedback_data))),
          ins_csv = (if csv_button then Some (to_csv (setitem_hour (pd_DataFrame feedback_data))) else None),
          ins_report = (if report_button
            then Some (projr (generate_summary_report R now (setitem_hour (pd_DataFrame feedback_data))))
            else None) \<rparr>)"
proof -
  let ?df = "pd_DataFrame feedback_data"
  let ?df' = "setitem_hour ?df"
  have c: "df_columns ?df = entry_keys" using assms by (rule pd_DataFrame_columns)
  have c': "df_columns ?df' = entry_keys @ [Hour]" using assms by (rule df'_columns)
  have g: "getitem ?df ''sentiment'' = Inr (map (cell Sentiment) feedback_data)"
    "getitem ?df ''demographic'' = Inr (map (cell Demographic) feedback_data)"
    "getitem ?df ''timestamp'' = Inr (map (cell Timestamp) feedback_data)"
    using getitem_present [of Sentiment ?df] getitem_present [of Demographic ?df]
      getitem_present [of Timestamp ?df]
    by (simp_all add: c entry_keys_def)
  have g': "getitem ?df' ''sentiment'' = Inr (map (cell Sentiment) feedback_data)"
    "getitem ?df' ''demographic'' = Inr (map (cell Demographic) feedback_data)"
    using getitem_present [of Sentiment ?df'] getitem_present [of Demographic ?df']
    by (simp_all add: c' entry_keys_def)
  have x: "getitem (getitem_mask ?df' (eq_str (map (cell Sentiment) feedback_data) v)) ''text''
            = Inr (map (cell Text) (filter (\<lambda>e. fb_sentiment e = v) feedback_data))" for v
    using getitem_present [of Text "getitem_mask ?df' (eq_str (map (cell Sentiment) (df_rows ?df')) v)"]
      rows_getitem_mask [of ?df' v]
    by (simp add: c' entry_keys_def)
  obtain recs where r: "generate_recommendations ?df' = Inr recs"
    by (simp add: generate_recommendations_eq c' entry_keys_def)
  obtain rep where p: "generate_summary_report R now ?df' = Inr rep"
    by (simp add: generate_summary_report_eq c' entry_keys_def)
  have l: "0 < len ?df'" using assms by (simp add: len_def)
  have m: "mean (eq_str (map (cell Sentiment) feedback_data) v) = Fin (sentiment_fraction feedback_data v)" for v
    using assms by (rule mean_eq_str)
  show ?thesis
    unfolding insights_page_def
    by (simp add: assms Let_def g g' x dt_hour_timestamp l m r p len_def comp_def)
qed


lemma to_csv_df':
  "feedback_data \<noteq> [] \<Longrightarrow>
   to_csv (setitem_hour (pd_DataFrame feedback_data))
     = \<lparr> csv_header = record_attributes @ [''hour''],
         csv_rows = map (\<lambda>e. [PTime (fb_timestamp e), PStr (fb_name e), PStr (fb_demographic e),
                               PStr (fb_type e), PStr (fb_text e), PStr (fb_sentiment e),
                               PList (fb_key_points e), PStr (fb_category e),
                               PInt (hour (fb_timestamp e))]) feedback_data \<rparr>"
  by (simp add: to_csv_def df'_columns entry_keys_def record_attributes_def)

text \<open>
  C6, as the code has it. For a non-empty store the export has exactly one row per
  record, in store order, and nine columns: the eight attributes of the record in their
  fixed order, followed by the column \<^verbatim>\<open>hour\<close> that the page has written into the
  frame for its timeline before it exports the frame.
\<close>

theorem csv_export_has_hour_column:
  assumes "feedback_data \<noteq> []"
  shows "shown ins_csv (insights_page R now True report_button feedback_data)
     = Some (Some \<lparr> csv_header = record_attributes @ [''hour''],
         csv_rows = map (\<lambda>e. [PTime (fb_timestamp e), PStr (fb_name e), PStr (fb_demographic e),
                               PStr (fb_type e), PStr (fb_text e), PStr (fb_sentiment e),
                               PList (fb_key_points e), PStr (fb_category e),
                               PInt (hour (fb_timestamp e))]) feedback_data \<rparr>)"
  by (simp add: shown_def insights_page_eq [OF assms] to_csv_df' [OF assms])

theorem csv_export_has_hour_column_witness:
  "two_positive \<noteq> []
   \<and> shown ins_csv (insights_page example_renderers t0 True False two_positive)
     = Some (Some \<lparr> csv_header = [''timestamp'', ''name'', ''demographic'', ''type'', ''text'',
                                  ''sentiment'', ''key_points'', ''category'', ''hour''],
         csv_rows = [[PTime t0, PStr ''Anonymous'', PStr ''Student'', PStr ''Support'',
                      PStr ''Some words'', PStr ''positive'', PList [], PStr ''general'', PInt 9],
                     [PTime t0, PStr ''Anonymous'', PStr ''Farmer'', PStr ''Support'',
                      PStr ''Some words'', PStr ''positive'', PList [], PStr ''general'', PInt 9]] \<rparr>)"
  using csv_export_has_hour_column [of two_positive example_renderers t0 False]
  by (simp add: two_positive_def example_entry_def record_attributes_def t0_def)

text \<open>
  The claim C6 as stated fails: the header of the export of a one-record store has the
  column \<^verbatim>\<open>hour\<close> after the attributes of the record.
\<close>

theorem csv_export_extra_column:
  "shown ins_csv (insights_page example_renderers t0 True False
                    [example_entry ''Farmer'' ''Concern'' ''negative''])
     = Some (Some \<lparr> csv_header = [''timestamp'', ''name'', ''demographic'', ''type'', ''text'',
                                  ''sentiment'', ''key_points'', ''category'', ''hour''],
         csv_rows = [[PTime t0, PStr ''Anonymous'', PStr ''Farmer'', PStr ''Concern'',
                      PStr ''Some words'', PStr ''negative'', PList [], PStr ''general'', PInt 9]] \<rparr>)
   \<and> [''timestamp'', ''name'', ''demographic'', ''type'', ''text'',
       ''sentiment'', ''key_points'', ''category'', ''hour''] \<noteq> record_attributes"
  by (simp add: shown_def insights_page_eq to_csv_df' record_attributes_def example_entry_def t0_def)

lemma count_list_zip:
  "count_list (zip (map f rows) (map g rows)) (a, b) = length (filter (\<lambda>e. f e = a \<and> g e = b) rows)"
  by (induction rows) auto

lemma strict_sorted_sort_uniq: "sorted_wrt (<) (sort (uniq xs))"
  by (simp add: strict_sorted_iff)

text \<open>
  C7, as the code has it. For a non-empty store the rows of the cross-tabulation are
  exactly the demographics present in the store, in ascending order of their labels;
  the columns are exactly the sentiment values present in the store, in ascending order
  (not always the three classes); and each cell is the number of records of that
  demographic and sentiment, hence 0 for a combination that no record has.
\<close>

theorem crosstab_sorted_labels:
  assumes "feedback_data \<noteq> []"
  shows "\<exists>ct. shown ins_demo_sentiment (insights_page R now csv_button report_button feedback_data) = Some ct
     \<and> sorted_wrt (<) (ct_index ct) \<and> set (ct_index ct) = fb_demographic ` set feedback_data
     \<and> sorted_wrt (<) (ct_columns ct) \<and> set (ct_columns ct) = fb_sentiment ` set feedback_data
     \<and> length (ct_cells ct) = length (ct_index ct)
     \<and> (\<forall>i < length (ct_index ct). length (ct_cells ct ! i) = length (ct_columns ct)
          \<and> (\<forall>j < length (ct_columns ct).
               ct_cells ct ! i ! j
                 = length (filter (\<lambda>e. fb_demographic e = ct_index ct ! i
                                      \<and> fb_sentiment e = ct_columns ct ! j) feedback_data)))"
  by (simp add: shown_def insights_page_eq [OF assms] groupby_size_unstack_def Let_def
      strict_sorted_sort_uniq count_list_zip)

theorem crosstab_sorted_labels_witness:
  "two_positive \<noteq> []
   \<and> shown ins_demo_sentiment (insights_page example_renderers t0 False False two_positive)
       = Some \<lparr> ct_index = [''Farmer'', ''Student''], ct_columns = [''positive''],
                ct_cells = [[1], [1]] \<rparr>
   \<and> sorted_wrt (<) [''Farmer'', ''Student'']"
  using crosstab_sorted_labels [of two_positive example_renderers t0 False False]
  by (simp add: shown_def insights_page_eq two_positive_def groupby_size_unstack_def
      example_entry_def)

text \<open>
  The claim C7 as stated fails: with a student's record before a farmer's the rows are
  the farmer's and then the student's, not the order of first appearance; and with
  positive records only there is one column, not three.
\<close>

theorem crosstab_rows_not_in_first_appearance_order:
  "uniq (map fb_demographic two_positive) = [''Student'', ''Farmer'']
   \<and> ct_index (the (shown ins_demo_sentiment
                       (insights_page example_renderers t0 False False two_positive)))
       = [''Farmer'', ''Student'']
   \<and> ct_columns (the (shown ins_demo_sentiment
                         (insights_page example_renderers t0 False False two_positive)))
       = [''positive'']
   \<and> [''positive''] \<noteq> [''positive'', ''neutral'', ''negative'']"
  by (simp add: shown_def insights_page_eq two_positive_def groupby_size_unstack_def
      example_entry_def)

subsection \<open>The empty store\<close>

text \<open>
  C1, as the code has it. On an empty store the insights page shows its warning and
  returns: it does not fail, and it produces no support rate, no concern rate, no
  recommendations, no export and no report (rather than zeros and an empty sequence).
  The feedback page on an empty store shows only its own warning while no document has
  been analysed; once one has, and unless the run appends a submission, it shows the note
  of the statistics column and no record. The two generators are never called on an
  empty store; on its frame, which has no columns, each would raise \<open>KeyError\<close> at its
  first read of \<^verbatim>\<open>df['sentiment']\<close>.
\<close>

theorem empty_store_guarded:
  "insights_page R now csv_button report_button []
     = Inr (Warning ''No feedback data available for insights!'')
   \<and> shown ins_support_pct (insights_page R now csv_button report_button []) = None
   \<and> shown ins_concern_pct (insights_page R now csv_button report_button []) = None
   \<and> shown ins_recommendations (insights_page R now csv_button report_button []) = None
   \<and> shown ins_csv (insights_page R now csv_button report_button []) = None
   \<and> shown ins_report (insights_page R now csv_button report_button []) = None
   \<and> feedback_page ai now [] f []
       = Inr ([], Warn ''Please analyze a document first to collect feedback!'')
   \<and> (simplified_text \<noteq> [] \<and> \<not> (form_submitted f \<and> form_feedback_text f \<noteq> []) \<longrightarrow>
        feedback_page ai now simplified_text f []
          = Inr ([], View (Info ''No feedback received yet.'') []))
   \<and> generate_recommendations (pd_DataFrame []) = Inl (KeyError ''sentiment'')
   \<and> generate_summary_report R now (pd_DataFrame []) = Inl (KeyError ''sentiment'')"
proof -
  have a: "getitem (pd_DataFrame []) ''sentiment'' = Inl (KeyError ''sentiment'')"
    using getitem_absent [of Sentiment "pd_DataFrame []"] by (simp add: pd_DataFrame_def)
  show ?thesis
    by (simp add: insights_page_def shown_def feedback_page_def live_feedback_stats_def
        generate_recommendations_def generate_summary_report_def a Let_def)
qed

theorem empty_store_guarded_witness:
  "''Plain summary'' \<noteq> [] \<and> form_feedback_text empty_text_form = []
   \<and> feedback_page negative_analyzer t0 ''Plain summary'' empty_text_form []
       = Inr ([], View (Info ''No feedback received yet.'') [])"
  using empty_store_guarded [of example_renderers t0 False False negative_analyzer
                               empty_text_form "''Plain summary''"]
  by (simp add: empty_text_form_def)

text \<open>
  The claim C1 as stated fails: on the empty store, with both download buttons pressed,
  the page shows its warning; the support and concern rates are not 0 and the
  recommendations are not the empty sequence, for none of them is produced.
\<close>

theorem empty_store_shows_no_rates:
  "insights_page example_renderers t0 True True []
     = Inr (Warning ''No feedback data available for insights!'')
   \<and> shown ins_support_pct (insights_page example_renderers t0 True True []) \<noteq> Some (Fin 0)
   \<and> shown ins_concern_pct (insights_page example_renderers t0 True True []) \<noteq> Some (Fin 0)
   \<and> shown ins_recommendations (insights_page example_renderers t0 True True []) \<noteq> Some []"
  by (simp add: insights_page_def shown_def)

subsection \<open>Rounding\<close>

text \<open>
  \<open>floor_log2\<close> is the exponent, and rounding to float64 moves a non-negative number by
  at most the fraction \<open>2^-53\<close> of it.
\<close>

lemma round_half_even_error: "\<bar>of_int (round_half_even y) - y\<bar> \<le> 1 / 2"
proof -
  define f where "f = \<lfloor>y\<rfloor>"
  have b: "of_int f \<le> y" "y < of_int f + 1" unfolding f_def by linarith+
  consider "y - of_int f < 1 / 2" | "1 / 2 < y - of_int f" | "y - of_int f = 1 / 2" by linarith
  then show ?thesis
  proof cases
    case 1
    then have "round_half_even y = f" by (simp add: round_half_even_def f_def Let_def)
    with 1 b show ?thesis by simp
  next
    case 2
    then have "round_half_even y = f + 1" by (simp add: round_half_even_def f_def Let_def)
    with 2 b show ?thesis by simp
  next
    case 3
    then have "round_half_even y = f \<or> round_half_even y = f + 1"
      by (simp add: round_half_even_def f_def Let_def)
    with 3 show ?thesis by auto
  qed
qed

lemma floor_log2_le:
  assumes "0 < x"
  shows "2 powi (floor_log2 x) \<le> x"
proof -
  obtain p q where pq: "quotient_of x = (p, q)" by (cases "quotient_of x")
  then have q: "0 < q" using quotient_of_denom_pos by blast
  have x: "x = of_int p / of_int q" using pq by (rule quotient_of_div)
  have p: "0 < p" using assms q x by (simp add: zero_less_divide_iff)
  let ?d = "bitlen p - bitlen q"
  show ?thesis
  proof (cases "2 powi ?d \<le> x")
    case True
    then show ?thesis by (simp add: floor_log2_def pq)
  next
    case False
    have bp: "2 ^ nat (bitlen p - 1) \<le> p" using bitlen_bounds [OF p] by simp
    have bq: "q < 2 ^ nat (bitlen q)" using bitlen_bounds [OF q] by simp
    have bp1: "1 \<le> bitlen p" using p by (simp add: bitlen_def floorlog_def)
    have bq0: "0 \<le> bitlen q" by (rule bitlen_nonneg)
    have rp: "(2::rat) powi (bitlen p - 1) \<le> of_int p"
    proof -
      have "(2::rat) powi (bitlen p - 1) = 2 ^ nat (bitlen p - 1)"
        using bp1 by (simp add: power_int_def)
      also have "\<dots> = of_int (2 ^ nat (bitlen p - 1))" by simp
      also have "\<dots> \<le> of_int p" using bp by (simp only: of_int_le_iff)
      finally show ?thesis .
    qed
    have rq: "of_int q \<le> (2::rat) powi (bitlen q)"
    proof -
      have "of_int q \<le> (of_int (2 ^ nat (bitlen q)) :: rat)" using bq by (simp only: of_int_le_iff less_imp_le)
      also have "\<dots> = 2 powi (bitlen q)" using bq0 by (simp add: power_int_def)
      finally show ?thesis .
    qed
    have "(2::rat) powi (?d - 1) = 2 powi (bitlen p - 1) / 2 powi (bitlen q)"
      by (simp add: power_int_diff)
    also have "\<dots> \<le> of_int p / 2 powi (bitlen q)"
      using rp by (simp add: divide_right_mono)
    also have "\<dots> \<le> of_int p / of_int q"
      using rq p q by (simp add: frac_le)
    finally have "2 powi (?d - 1) \<le> x" by (simp add: x)
    with False show ?thesis by (simp add: floor_log2_def pq)
  qed
qed

lemma float64_error:
  assumes "0 \<le> x"
  shows "\<bar>float64 x - x\<bar> \<le> x / 2 ^ 53"
proof (cases "x = 0")
  case True
  then show ?thesis by (simp add: float64_def)
next
  case False
  with assms have pos: "0 < x" by simp
  define q :: rat where "q = 2 powi (floor_log2 x - 52)"
  define m where "m = round_half_even (x / q)"
  have q0: "0 < q" by (simp add: q_def)
  have fl: "float64 x = of_int m * q"
    using pos by (simp add: float64_def Let_def q_def m_def)
  have qx: "q \<le> x / 2 ^ 52"
  proof -
    have "q = 2 powi (floor_log2 x) / 2 ^ 52"
      by (simp add: q_def power_int_diff)
    also have "\<dots> \<le> x / 2 ^ 52"
      using floor_log2_le [OF pos] by (simp add: divide_right_mono)
    finally show ?thesis .
  qed
  have "\<bar>of_int m * q - x\<bar> = \<bar>of_int m - x / q\<bar> * q"
  proof -
    have "of_int m * q - x = (of_int m - x / q) * q" using q0 by (simp add: field_simps)
    then show ?thesis using q0 by (simp add: abs_mult)
  qed
  also have "\<dots> \<le> (1 / 2) * q"
    using round_half_even_error [of "x / q"] q0 by (simp add: m_def mult_right_mono)
  also have "\<dots> \<le> (1 / 2) * (x / 2 ^ 52)"
    using qx by simp
  also have "\<dots> = x / 2 ^ 53" by simp
  finally show ?thesis by (simp add: fl)
qed

lemma floor_log2_less:
  assumes "0 < x"
  shows "x < 2 powi (floor_log2 x + 1)"
proof -
  obtain p q where pq: "quotient_of x = (p, q)" by (cases "quotient_of x")
  then have q: "0 < q" using quotient_of_denom_pos by blast
  have x: "x = of_int p / of_int q" using pq by (rule quotient_of_div)
  have p: "0 < p" using assms q x by (simp add: zero_less_divide_iff)
  let ?d = "bitlen p - bitlen q"
  show ?thesis
  proof (cases "2 powi ?d \<le> x")
    case False
    then show ?thesis by (simp add: floor_log2_def pq)
  next
    case True
    have bp: "p < 2 ^ nat (bitlen p)" using bitlen_bounds [OF p] by simp
    have bq: "2 ^ nat (bitlen q - 1) \<le> q" using bitlen_bounds [OF q] by simp
    have bq1: "1 \<le> bitlen q" using q by (simp add: bitlen_def floorlog_def)
    have bp0: "0 \<le> bitlen p" by (rule bitlen_nonneg)
    have rp: "of_int p < (2::rat) powi (bitlen p)"
    proof -
      have "of_int p < (of_int (2 ^ nat (bitlen p)) :: rat)" using bp by (simp only: of_int_less_iff)
      also have "\<dots> = 2 powi (bitlen p)" using bp0 by (simp add: power_int_def)
      finally show ?thesis .
    qed
    have rq: "(2::rat) powi (bitlen q - 1) \<le> of_int q"
    proof -
      have "(2::rat) powi (bitlen q - 1) = 2 ^ nat (bitlen q - 1)"
        using bq1 by (simp add: power_int_def)
      also have "\<dots> = of_int (2 ^ nat (bitlen q - 1))" by simp
      also have "\<dots> \<le> of_int q" using bq by (simp only: of_int_le_iff)
      finally show ?thesis .
    qed
    have "of_int p / of_int q < (2::rat) powi (bitlen p) / of_int q"
      using rp q by (simp add: divide_strict_right_mono)
    also have "\<dots> \<le> 2 powi (bitlen p) / 2 powi (bitlen q - 1)"
      using rq by (simp add: frac_le)
    also have "\<dots> = 2 powi (?d + 1)"
      by (simp add: power_int_diff power_int_add)
    finally have "x < 2 powi (?d + 1)" by (simp add: x)
    with True show ?thesis by (simp add: floor_log2_def pq)
  qed
qed

lemma float64_nonneg:
  assumes "0 \<le> x"
  shows "0 \<le> float64 x"
proof -
  have "x / 2 ^ 53 \<le> x" using assms by (simp add: field_simps)
  with float64_error [OF assms] show ?thesis by linarith
qed

lemma pct_error:
  assumes "0 \<le> x"
  shows "\<bar>float64 (float64 x * 100) - 100 * x\<bar> \<le> 3 * x / 10 ^ 14"
proof -
  define a where "a = float64 x"
  have e1: "\<bar>a - x\<bar> \<le> x / 2 ^ 53" unfolding a_def by (rule float64_error [OF assms])
  have a0: "0 \<le> a" unfolding a_def by (rule float64_nonneg [OF assms])
  have a1: "a \<le> x + x / 2 ^ 53" using e1 by linarith
  have e2: "\<bar>float64 (a * 100) - a * 100\<bar> \<le> a * 100 / 2 ^ 53"
    using float64_error [of "a * 100"] a0 by simp
  have "a * 100 / 2 ^ 53 \<le> (x + x / 2 ^ 53) * 100 / 2 ^ 53"
    using a1 by (simp add: divide_right_mono)
  with e2 have e3: "\<bar>float64 (a * 100) - a * 100\<bar> \<le> (x + x / 2 ^ 53) * 100 / 2 ^ 53"
    by linarith
  have "float64 (a * 100) - 100 * x = (float64 (a * 100) - a * 100) + 100 * (a - x)"
    by (simp add: algebra_simps)
  then have "\<bar>float64 (a * 100) - 100 * x\<bar> \<le> \<bar>float64 (a * 100) - a * 100\<bar> + \<bar>100 * (a - x)\<bar>"
    by (simp only: abs_triangle_ineq)
  moreover have "\<bar>100 * (a - x)\<bar> = 100 * \<bar>a - x\<bar>"
    by (simp only: abs_mult abs_numeral)
  ultimately have "\<bar>float64 (a * 100) - 100 * x\<bar> \<le> \<bar>float64 (a * 100) - a * 100\<bar> + 100 * \<bar>a - x\<bar>"
    by (simp only:)
  also have "\<dots> \<le> (x + x / 2 ^ 53) * 100 / 2 ^ 53 + 100 * (x / 2 ^ 53)"
    using e3 e1 by (intro add_mono mult_left_mono) simp_all
  also have "\<dots> = x * (100 * (2 + 1 / 2 ^ 53) / 2 ^ 53)"
    by (simp add: field_simps)
  also have "\<dots> \<le> x * (3 / 10 ^ 14)"
    by (rule mult_left_mono [OF _ assms]) simp
  finally show ?thesis by (simp add: a_def)
qed

lemma float64_examples:
  "float64 (3 / 10) = 5404319552844595 / 2 ^ 54"
  "float64 (float64 (11 / 20) * 100) = 55 + 1 / 2 ^ 47"
  "float64 (float64 (9 / 20) * 100) = 45"
  by code_simp+

subsection \<open>Percentages\<close>

lemma three_class_counts:
  assumes "\<forall>e \<in> set rows. fb_sentiment e \<in> {''positive'', ''neutral'', ''negative''}"
  shows "sentiment_count rows ''positive'' + sentiment_count rows ''neutral''
           + sentiment_count rows ''negative'' = length rows"
  using assms by (induction rows) (auto simp: sentiment_count_def)

lemma sentiment_fraction_nonneg: "0 \<le> sentiment_fraction rows label"
  by (simp add: sentiment_fraction_def)

lemma sentiment_fraction_le_1: "sentiment_fraction rows label \<le> 1"
proof (cases "rows = []")
  case True
  then show ?thesis by (simp add: sentiment_fraction_def)
next
  case False
  have "sentiment_count rows label \<le> length rows" by (simp add: sentiment_count_def)
  then have "(of_nat (sentiment_count rows label) :: rat) \<le> of_nat (length rows)" by simp
  then show ?thesis using False by (simp add: sentiment_fraction_def divide_le_eq_1)
qed

lemma three_fractions:
  assumes "rows \<noteq> []"
    and "\<forall>e \<in> set rows. fb_sentiment e \<in> {''positive'', ''neutral'', ''negative''}"
  shows "sentiment_fraction rows ''positive'' + sentiment_fraction rows ''neutral''
           + sentiment_fraction rows ''negative'' = 1"
proof -
  have n: "of_nat (length rows) \<noteq> (0::rat)" using assms(1) by simp
  have "sentiment_fraction rows ''positive'' + sentiment_fraction rows ''neutral''
           + sentiment_fraction rows ''negative''
        = of_nat (sentiment_count rows ''positive'' + sentiment_count rows ''neutral''
           + sentiment_count rows ''negative'') / of_nat (length rows)"
    by (simp add: sentiment_fraction_def add_divide_distrib)
  also have "\<dots> = 1" unfolding three_class_counts [OF assms(2)] using n by simp
  finally show ?thesis .
qed

text \<open>
  C8, as the code has it. The code computes two sentiment percentages, the support rate
  (positive) and the concern rate (negative), each as the float64 mean of its mask times
  100; it computes no neutral percentage. For every non-empty store each of the two is
  within \<open>10^-13\<close> of the exact percentage (count over total, times 100). If every
  record's sentiment is one of positive, neutral and negative, the two rates and the
  exact neutral percentage sum to 100 within \<open>10^-13\<close>.
\<close>

theorem sentiment_percentages_sum_to_100:
  assumes "feedback_data \<noteq> []"
  shows "\<exists>p g.
     shown ins_support_pct (insights_page R now csv_button report_button feedback_data) = Some (Fin p)
     \<and> shown ins_concern_pct (insights_page R now csv_button report_button feedback_data) = Some (Fin g)
     \<and> p = float64 (float64 (sentiment_fraction feedback_data ''positive'') * 100)
     \<and> g = float64 (float64 (sentiment_fraction feedback_data ''negative'') * 100)
     \<and> \<bar>p - 100 * sentiment_fraction feedback_data ''positive''\<bar> \<le> 1 / 10 ^ 13
     \<and> \<bar>g - 100 * sentiment_fraction feedback_data ''negative''\<bar> \<le> 1 / 10 ^ 13
     \<and> ((\<forall>e \<in> set feedback_data. fb_sentiment e \<in> {''positive'', ''neutral'', ''negative''}) \<longrightarrow>
          \<bar>p + g + 100 * sentiment_fraction feedback_data ''neutral'' - 100\<bar> \<le> 1 / 10 ^ 13)"
proof -
  define a where "a = sentiment_fraction feedback_data ''positive''"
  define b where "b = sentiment_fraction feedback_data ''negative''"
  define u where "u = sentiment_fraction feedback_data ''neutral''"
  define p where "p = float64 (float64 a * 100)"
  define g where "g = float64 (float64 b * 100)"
  have a: "0 \<le> a" "a \<le> 1" and b: "0 \<le> b" "b \<le> 1" and u: "0 \<le> u"
    unfolding a_def b_def u_def
    by (rule sentiment_fraction_nonneg sentiment_fraction_le_1)+
  have ep: "\<bar>p - 100 * a\<bar> \<le> 3 * a / 10 ^ 14" unfolding p_def by (rule pct_error [OF a(1)])
  have eg: "\<bar>g - 100 * b\<bar> \<le> 3 * b / 10 ^ 14" unfolding g_def by (rule pct_error [OF b(1)])
  have tp: "\<bar>p - 100 * a\<bar> \<le> 1 / 10 ^ 13" using ep a by simp
  have tg: "\<bar>g - 100 * b\<bar> \<le> 1 / 10 ^ 13" using eg b by simp
  have ts: "\<bar>p + g + 100 * u - 100\<bar> \<le> 1 / 10 ^ 13"
    if "\<forall>e \<in> set feedback_data. fb_sentiment e \<in> {''positive'', ''neutral'', ''negative''}"
  proof -
    have one: "a + u + b = 1"
      unfolding a_def b_def u_def by (rule three_fractions [OF assms that])
    then have "p + g + 100 * u - 100 = (p - 100 * a) + (g - 100 * b)" by simp
    then have "\<bar>p + g + 100 * u - 100\<bar> \<le> \<bar>p - 100 * a\<bar> + \<bar>g - 100 * b\<bar>"
      by (simp only: abs_triangle_ineq)
    also have "\<dots> \<le> 3 * a / 10 ^ 14 + 3 * b / 10 ^ 14" using ep eg by (rule add_mono)
    also have "\<dots> \<le> 1 / 10 ^ 13" using one u by simp
    finally show ?thesis .
  qed
  show ?thesis
    using tp tg ts
    by (simp add: shown_def insights_page_eq [OF assms] a_def b_def u_def p_def g_def)
qed

theorem sentiment_percentages_sum_to_100_witness:
  "eleven_of_twenty \<noteq> []
   \<and> shown ins_support_pct (insights_page example_renderers t0 False False eleven_of_twenty)
       = Some (Fin (55 + 1 / 2 ^ 47))
   \<and> shown ins_concern_pct (insights_page example_renderers t0 False False eleven_of_twenty)
       = Some (Fin 45)
   \<and> sentiment_fraction eleven_of_twenty ''neutral'' = 0
   \<and> \<bar>(55 + 1 / 2 ^ 47) + 45 + 100 * 0 - (100::rat)\<bar> \<le> 1 / 10 ^ 13"
proof -
  have fr: "sentiment_fraction eleven_of_twenty ''positive'' = 11 / 20"
    "sentiment_fraction eleven_of_twenty ''neutral'' = 0"
    "sentiment_fraction eleven_of_twenty ''negative'' = 9 / 20"
    by code_simp+
  have ne: "eleven_of_twenty \<noteq> []" by (simp add: eleven_of_twenty_def)
  have cl: "\<forall>e \<in> set eleven_of_twenty. fb_sentiment e \<in> {''positive'', ''neutral'', ''negative''}"
    by (simp add: eleven_of_twenty_def example_entry_def)
  show ?thesis
    using sentiment_percentages_sum_to_100 [OF ne, of example_renderers t0 False False] cl
    by (simp add: shown_def insights_page_eq [OF ne] fr float64_examples ne)
qed

text \<open>
  The claim C8 as stated fails: for the store of one record whose sentiment is
  \<^verbatim>\<open>'mixed'\<close> the support rate and the concern rate are 0, and no record is neutral.
\<close>

theorem percentages_of_unrecognised_sentiment:
  "one_mixed \<noteq> []
   \<and> shown ins_support_pct (insights_page example_renderers t0 False False one_mixed) = Some (Fin 0)
   \<and> shown ins_concern_pct (insights_page example_renderers t0 False False one_mixed) = Some (Fin 0)
   \<and> sentiment_fraction one_mixed ''neutral'' = 0
   \<and> (0::rat) + 0 + 100 * 0 \<noteq> 100"
  by (simp add: shown_def insights_page_eq sentiment_fraction_def sentiment_count_def
      one_mixed_def example_entry_def float64_def)

end
